theory Spec2Isabelle
  imports Complex_Main
begin

section \<open>Batch collation (\<open>DialogAudioDM.collate_fn\<close>)\<close>

text \<open>
  Python values that occur in a per-example record: a tensor, given by its shape (the
  sizes of its dimensions) and its elements in row-major order, or a string. In row-major
  order the elements of a concatenation along dimension 0 are the elements of the parts,
  one part after the other.
\<close>

datatype 'a pyval = Tensor "nat list" "'a list" | Str string

text \<open>
  The exceptions the modelled code can raise: the KeyError of a subscript with a missing
  key, and the three ways in which \<open>torch.cat\<close> refuses its argument (an empty list, an
  element that is no tensor, tensors that cannot be concatenated).
\<close>

datatype error = KeyError string | CatEmptyList | CatNotTensor | CatShape

text \<open>A per-example record is a Python dict from string keys to values.\<close>

type_synonym 'a example = "string \<Rightarrow> 'a pyval option"

fun is_Tensor :: "'a pyval \<Rightarrow> bool" where
  "is_Tensor (Tensor sh xs) = True"
| "is_Tensor (Str s) = False"

fun shape_of :: "'a pyval \<Rightarrow> nat list" where
  "shape_of (Tensor sh xs) = sh"
| "shape_of (Str s) = []"

fun data_of :: "'a pyval \<Rightarrow> 'a list" where
  "data_of (Tensor sh xs) = xs"
| "data_of (Str s) = []"

text \<open>A tensor holds as many elements as its shape says.\<close>

fun is_tensor_value :: "'a pyval \<Rightarrow> bool" where
  "is_tensor_value (Tensor sh xs) = (length xs = prod_list sh)"
| "is_tensor_value (Str s) = False"

text \<open>
  \<open>torch.cat(tensors)\<close> with the default \<open>dim=0\<close>. An empty list and an element that is
  no tensor are refused. One-dimensional tensors without elements (shape \<open>(0,)\<close>) are
  skipped; if nothing is left the result is such a tensor. A tensor without dimensions
  cannot be concatenated, and the tensors must agree in every dimension but the first.
  The result has the sum of the first dimensions and the elements of all parts in order.
\<close>

definition torch_cat :: "'a pyval list \<Rightarrow> error + 'a pyval" where
  "torch_cat ts =
     (if ts = [] then Inl CatEmptyList
      else if \<not> list_all is_Tensor ts then Inl CatNotTensor
      else (case filter (\<lambda>t. shape_of t \<noteq> [0]) ts of
              [] \<Rightarrow> Inr (Tensor [0] [])
            | t # rest \<Rightarrow>
                if list_ex (\<lambda>u. shape_of u = []) (t # rest) then Inl CatShape
                else if list_all (\<lambda>u. tl (shape_of u) = tl (shape_of t)) rest
                then Inr (Tensor (sum_list (map (\<lambda>u. hd (shape_of u)) (t # rest))
                                   # tl (shape_of t))
                                 (concat (map data_of (t # rest))))
                else Inl CatShape))"

text \<open>The six local lists that the loop of \<open>collate_fn\<close> appends to (prefix \<open>l_\<close>).\<close>

record 'a lists =
  l_waveforms :: "'a pyval list"
  l_vad :: "'a pyval list"
  l_vad_history :: "'a pyval list"
  l_vad_label :: "'a pyval list"
  l_dset_names :: "'a pyval list"
  l_sessions :: "'a pyval list"

definition no_lists :: "'a lists" where
  "no_lists = \<lparr>l_waveforms = [], l_vad = [], l_vad_history = [], l_vad_label = [],
     l_dset_names = [], l_sessions = []\<rparr>"

text \<open>\<open>if key in b: xs.append(b[key])\<close>\<close>

definition append_if_in :: "'a example \<Rightarrow> string \<Rightarrow> 'a pyval list \<Rightarrow> 'a pyval list" where
  "append_if_in b key xs = (case b key of None \<Rightarrow> xs | Some v \<Rightarrow> xs @ [v])"

text \<open>
  The loop \<open>for b in batch\<close>. The three subscripts \<open>b["waveform"]\<close>, \<open>b["dataset"]\<close>,
  \<open>b["session"]\<close> raise KeyError on a record without the key; the three optional keys are
  tested with \<open>in\<close>.
\<close>

fun collect :: "'a example list \<Rightarrow> 'a lists \<Rightarrow> error + 'a lists" where
  "collect [] a = Inr a"
| "collect (b # bs) a =
     (case b ''waveform'' of
        None \<Rightarrow> Inl (KeyError ''waveform'')
      | Some w \<Rightarrow>
     (case b ''dataset'' of
        None \<Rightarrow> Inl (KeyError ''dataset'')
      | Some d \<Rightarrow>
     (case b ''session'' of
        None \<Rightarrow> Inl (KeyError ''session'')
      | Some s \<Rightarrow>
        collect bs
          \<lparr>l_waveforms = l_waveforms a @ [w],
           l_vad = append_if_in b ''vad'' (l_vad a),
           l_vad_history = append_if_in b ''vad_history'' (l_vad_history a),
           l_vad_label = append_if_in b ''vad_label'' (l_vad_label a),
           l_dset_names = l_dset_names a @ [d],
           l_sessions = l_sessions a @ [s]\<rparr>)))"

text \<open>
  The returned dict \<open>ret\<close>: the keys \<open>waveform\<close>, \<open>dset_name\<close>, \<open>session\<close> are always set,
  the keys \<open>vad\<close>, \<open>vad_history\<close>, \<open>vad_label\<close> only under their \<open>if len(...) > 0\<close>
  (\<open>None\<close> is the absent key).
\<close>

record 'a ret =
  ret_waveform :: "'a pyval"
  ret_dset_name :: "'a pyval list"
  ret_session :: "'a pyval list"
  ret_vad :: "'a pyval option"
  ret_vad_history :: "'a pyval option"
  ret_vad_label :: "'a pyval option"

text \<open>\<open>if len(xs) > 0: ret[key] = torch.cat(xs)\<close>\<close>

definition cat_if_any :: "'a pyval list \<Rightarrow> error + 'a pyval option" where
  "cat_if_any xs =
     (if length xs > 0
      then (case torch_cat xs of Inl e \<Rightarrow> Inl e | Inr t \<Rightarrow> Inr (Some t))
      else Inr None)"

definition collate_fn :: "'a example list \<Rightarrow> error + 'a ret" where
  "collate_fn batch =
     (case collect batch no_lists of
        Inl e \<Rightarrow> Inl e
      | Inr a \<Rightarrow>
     (case torch_cat (l_waveforms a) of
        Inl e \<Rightarrow> Inl e
      | Inr w \<Rightarrow>
     (case cat_if_any (l_vad a) of
        Inl e \<Rightarrow> Inl e
      | Inr v \<Rightarrow>
     (case cat_if_any (l_vad_history a) of
        Inl e \<Rightarrow> Inl e
      | Inr h \<Rightarrow>
     (case cat_if_any (l_vad_label a) of
        Inl e \<Rightarrow> Inl e
      | Inr l \<Rightarrow>
        Inr \<lparr>ret_waveform = w, ret_dset_name = l_dset_names a, ret_session = l_sessions a,
             ret_vad = v, ret_vad_history = h, ret_vad_label = l\<rparr>)))))"

text \<open>
  A per-example record as the dataset yields it: a tensor under \<open>waveform\<close> and under each
  optional key it carries, and the two keys \<open>dataset\<close> and \<open>session\<close> present.
\<close>

definition tensor_or_absent :: "'a example \<Rightarrow> string \<Rightarrow> bool" where
  "tensor_or_absent b key = (case b key of None \<Rightarrow> True | Some v \<Rightarrow> is_tensor_value v)"

definition is_example :: "'a example \<Rightarrow> bool" where
  "is_example b =
     ((case b ''waveform'' of None \<Rightarrow> False | Some v \<Rightarrow> is_tensor_value v) \<and>
      b ''dataset'' \<noteq> None \<and> b ''session'' \<noteq> None \<and>
      tensor_or_absent b ''vad'' \<and> tensor_or_absent b ''vad_history'' \<and>
      tensor_or_absent b ''vad_label'')"

text \<open>The values stored under a key, over the records that carry it, in record order.\<close>

definition present :: "string \<Rightarrow> 'a example list \<Rightarrow> 'a pyval list" where
  "present key batch = List.map_filter (\<lambda>b. b key) batch"

text \<open>
  Tensors that \<open>torch.cat\<close> can concatenate along dimension 0: each has a first dimension,
  and all agree in the dimensions after the first.
\<close>

definition same_trailing_shape :: "'a pyval list \<Rightarrow> bool" where
  "same_trailing_shape ts =
     list_all (\<lambda>u. shape_of u \<noteq> [] \<and> tl (shape_of u) = tl (shape_of (hd ts))) ts"

text \<open>The concatenation along dimension 0 of such tensors.\<close>

definition cat_of :: "'a pyval list \<Rightarrow> 'a pyval" where
  "cat_of ts =
     Tensor (sum_list (map (\<lambda>u. hd (shape_of u)) ts) # tl (shape_of (hd ts)))
            (concat (map data_of ts))"

text \<open>\<open>ret.get(key)\<close> for the three optional keys of the returned dict.\<close>

definition ret_optional :: "'a ret \<Rightarrow> string \<Rightarrow> 'a pyval option" where
  "ret_optional ret key =
     (if key = ''vad'' then ret_vad ret
      else if key = ''vad_history'' then ret_vad_history ret
      else if key = ''vad_label'' then ret_vad_label ret
      else None)"

section \<open>The data module (\<open>DialogAudioDM\<close>)\<close>

text \<open>
  The attributes that \<open>DialogAudioDM.__init__\<close> stores on \<open>self\<close>, with the prefix \<open>dm_\<close>.
  Python floats that are only stored and handed on are rationals here; \<open>'t\<close> is the type
  of the \<open>transforms\<close> callable.
\<close>

record 't DialogAudioDM =
  dm_datasets :: "string list"
  dm_type :: string
  dm_transforms :: "'t option"
  dm_audio_mono :: bool
  dm_audio_duration :: int
  dm_sample_rate :: int
  dm_audio_overlap :: int
  dm_audio_normalize :: bool
  dm_audio_include_ratio :: rat
  dm_audio_context_duration :: int
  dm_ipu_min_time :: rat
  dm_ipu_pause_time :: rat
  dm_vad :: bool
  dm_vad_hz :: int
  dm_vad_horizon :: rat
  dm_vad_history :: bool
  dm_vad_history_times :: "int list"
  dm_flip_channels :: bool
  dm_flip_probability :: rat
  dm_mask_vad :: bool
  dm_mask_vad_probability :: rat
  dm_batch_size :: int
  dm_pin_memory :: bool
  dm_num_workers :: int

text \<open>
  The class \<open>DialogAudioDataset\<close> is constructed by \<open>_dataset\<close> from keyword arguments
  only; a constructed dataset is the record of the keyword arguments it was given
  (prefix \<open>ds_\<close>). \<open>'d\<close> is the type of the loaded corpus handed in as \<open>dataset\<close>.
\<close>

record ('d, 't) DialogAudioDataset =
  ds_dataset :: 'd
  ds_feature_extractor :: "unit option"
  ds_type :: string
  ds_audio_mono :: bool
  ds_audio_duration :: int
  ds_audio_overlap :: int
  ds_audio_normalize :: bool
  ds_sample_rate :: int
  ds_vad_hz :: int
  ds_vad_horizon_time :: rat
  ds_vad_history :: bool
  ds_vad_history_times :: "int list"
  ds_flip_channels :: bool
  ds_flip_probability :: rat
  ds_mask_vad :: bool
  ds_mask_vad_probability :: rat
  ds_transforms :: "'t option"

text \<open>\<open>DialogAudioDM._dataset(self, dset, split)\<close>\<close>

definition DialogAudioDM_dataset ::
  "'t DialogAudioDM \<Rightarrow> 'd \<Rightarrow> string \<Rightarrow> ('d, 't) DialogAudioDataset" where
  "DialogAudioDM_dataset self dset split =
     (let flip = (if split = ''train'' then dm_flip_channels self else False)
      in \<lparr>ds_dataset = dset,
          ds_feature_extractor = None,
          ds_type = dm_type self,
          ds_audio_mono = dm_audio_mono self,
          ds_audio_duration = dm_audio_duration self,
          ds_audio_overlap = dm_audio_overlap self,
          ds_audio_normalize = dm_audio_normalize self,
          ds_sample_rate = dm_sample_rate self,
          ds_vad_hz = dm_vad_hz self,
          ds_vad_horizon_time = dm_vad_horizon self,
          ds_vad_history = dm_vad_history self,
          ds_vad_history_times = dm_vad_history_times self,
          ds_flip_channels = flip,
          ds_flip_probability = dm_flip_probability self,
          ds_mask_vad = dm_mask_vad self,
          ds_mask_vad_probability = dm_mask_vad_probability self,
          ds_transforms = dm_transforms self\<rparr>)"

text \<open>
  \<open>DialogAudioDM.setup(self, stage)\<close> sets the attributes \<open>train_dset\<close>, \<open>val_dset\<close> and
  \<open>test_dset\<close> (\<open>None\<close> is the unset attribute). The corpus loader
  \<open>load_spoken_dialog_audio_dataset(datasets, split)\<close> is a parameter.
\<close>

record ('d, 't) dsets =
  train_dset :: "('d, 't) DialogAudioDataset option"
  val_dset :: "('d, 't) DialogAudioDataset option"
  test_dset :: "('d, 't) DialogAudioDataset option"

definition DialogAudioDM_setup ::
  "'t DialogAudioDM \<Rightarrow> (string list \<Rightarrow> string \<Rightarrow> 'd) \<Rightarrow> string option \<Rightarrow>
   ('d, 't) dsets \<Rightarrow> ('d, 't) dsets" where
  "DialogAudioDM_setup self load_spoken_dialog_audio_dataset stage attrs =
     (let attrs1 =
        (if stage = None \<or> stage = Some ''fit''
         then (let train_hf_dataset = load_spoken_dialog_audio_dataset (dm_datasets self) ''train'';
                   val_hf_dataset = load_spoken_dialog_audio_dataset (dm_datasets self) ''val''
               in attrs\<lparr>train_dset := Some (DialogAudioDM_dataset self train_hf_dataset ''train''),
                        val_dset := Some (DialogAudioDM_dataset self val_hf_dataset ''val'')\<rparr>)
         else attrs)
      in if stage = None \<or> stage = Some ''test''
         then (let test_hf_dataset = load_spoken_dialog_audio_dataset (dm_datasets self) ''test''
               in attrs1\<lparr>test_dset := Some (DialogAudioDM_dataset self test_hf_dataset ''test'')\<rparr>)
         else attrs1)"

section \<open>Words, dialogs and voice-activity segments\<close>

text \<open>
  The data model of the transcript side. Times are seconds; the Python floats are taken
  as exact rationals, so every comparison below is the comparison of the exact values.
  A speaker (channel) is a natural number.
\<close>

record word =
  word_text :: string
  word_start :: rat
  word_end :: rat
  word_channel :: nat

text \<open>
  A turn of the dialog. The word-level dialog that \<open>load_transcript\<close> returns carries the
  words of each turn under \<open>turn_words\<close>; \<open>None\<close> is a turn without word-level detail.
\<close>

record turn =
  turn_channel :: nat
  turn_start :: rat
  turn_end :: rat
  turn_text :: string
  turn_words :: "word list option"

type_synonym dialog = "turn list"

record vad_segment =
  seg_start :: rat
  seg_end :: rat

text \<open>The segments of every channel; position \<open>c\<close> of the list holds those of speaker \<open>c\<close>.\<close>

type_synonym vad_list = "vad_segment list list"

subsection \<open>VAD Extractor\<close>

text \<open>
  Modelled from the spec: \<open>extract_vad_list_from_words\<close> of
  \<open>datasets_turntaking/dataset/spoken_dialog/switchboard/utils.py\<close> is imported by
  \<open>switchboard.py\<close> and is not among the sources. The spec's algorithm: within each
  channel, sort the words by start time; merge a word into the current open segment if
  its start minus the current segment's end is at most \<open>min_word_vad_diff\<close>; otherwise
  close the current segment and open a new one at the word's start.
\<close>

fun merge_words :: "rat \<Rightarrow> vad_segment \<Rightarrow> word list \<Rightarrow> vad_segment list" where
  "merge_words min_word_vad_diff cur [] = [cur]"
| "merge_words min_word_vad_diff cur (w # ws) =
     (if word_start w - seg_end cur \<le> min_word_vad_diff
      then merge_words min_word_vad_diff (cur\<lparr>seg_end := max (seg_end cur) (word_end w)\<rparr>) ws
      else cur # merge_words min_word_vad_diff
                   \<lparr>seg_start = word_start w, seg_end = word_end w\<rparr> ws)"

definition vad_of_words :: "rat \<Rightarrow> word list \<Rightarrow> vad_segment list" where
  "vad_of_words min_word_vad_diff ws =
     (case sort_key word_start ws of
        [] \<Rightarrow> []
      | w # rest \<Rightarrow>
          merge_words min_word_vad_diff \<lparr>seg_start = word_start w, seg_end = word_end w\<rparr> rest)"

definition words_of_dialog :: "dialog \<Rightarrow> word list" where
  "words_of_dialog d = concat (map (\<lambda>t. case turn_words t of None \<Rightarrow> [] | Some ws \<Rightarrow> ws) d)"

definition n_channels :: "word list \<Rightarrow> nat" where
  "n_channels ws = fold (\<lambda>w n. max n (Suc (word_channel w))) ws 0"

definition channel_words :: "dialog \<Rightarrow> nat \<Rightarrow> word list" where
  "channel_words d c = filter (\<lambda>w. word_channel w = c) (words_of_dialog d)"

definition extract_vad_list_from_words :: "dialog \<Rightarrow> rat \<Rightarrow> vad_list" where
  "extract_vad_list_from_words d min_word_vad_diff =
     map (\<lambda>c. vad_of_words min_word_vad_diff (channel_words d c))
       [0 ..< n_channels (words_of_dialog d)]"

text \<open>
  Words of a channel that do not overlap one another: in the order of their starts, each
  word ends no later than the words after it start.
\<close>

definition words_do_not_overlap :: "word list \<Rightarrow> bool" where
  "words_do_not_overlap ws =
     sorted_wrt (\<lambda>w v. word_end w \<le> word_start v) (sort_key word_start ws)"

text \<open>The three properties of a channel's segment list.\<close>

definition sorted_segments :: "vad_segment list \<Rightarrow> bool" where
  "sorted_segments segs = sorted_wrt (\<lambda>a b. seg_start a \<le> seg_start b) segs"

definition non_overlapping :: "vad_segment list \<Rightarrow> bool" where
  "non_overlapping segs =
     sorted_wrt (\<lambda>a b. min (seg_end a) (seg_end b) \<le> max (seg_start a) (seg_start b)) segs"

definition gaps_exceed :: "rat \<Rightarrow> vad_segment list \<Rightarrow> bool" where
  "gaps_exceed min_word_vad_diff segs =
     successively (\<lambda>a b. min_word_vad_diff < seg_start b - seg_end a) segs"

subsection \<open>Dialog Compactor\<close>

text \<open>
  Modelled from the spec: \<open>remove_words_from_dialog\<close> of the same \<open>utils.py\<close> is not among
  the sources. The spec's Dialog Compactor discards the word-level granularity and keeps
  the turn boundaries (and the turn's text).
\<close>

definition remove_words_from_dialog :: "dialog \<Rightarrow> dialog" where
  "remove_words_from_dialog d = map (\<lambda>t. t\<lparr>turn_words := None\<rparr>) d"

section \<open>The Switchboard session generator (\<open>Swithchboard.generate\<close>)\<close>

text \<open>The attributes of \<open>SwitchboardConfig\<close>.\<close>

record SwitchboardConfig =
  cfg_ext :: string
  cfg_root :: string
  cfg_min_word_vad_diff :: rat
  cfg_remove_restarts :: bool
  cfg_train_sessions :: "string list"
  cfg_val_sessions :: "string list"
  cfg_test_sessions :: "string list"

text \<open>\<open>os.path.join\<close> on POSIX: a component that starts with a slash restarts the path.\<close>

definition join_step :: "string \<Rightarrow> string \<Rightarrow> string" where
  "join_step path b =
     (if take 1 b = ''/'' then b
      else if path = [] \<or> last path = CHR ''/'' then path @ b
      else path @ ''/'' @ b)"

definition join :: "string \<Rightarrow> string list \<Rightarrow> string" where
  "join a p = foldl join_step a p"

text \<open>The dict that \<open>generate\<close> yields for one session (keys with the prefix \<open>rec_\<close>).\<close>

record session_record =
  rec_session :: string
  rec_dataset :: string
  rec_audio_path :: string
  rec_vad_list :: vad_list
  rec_dialog :: dialog

text \<open>
  \<open>generate(self, sessions)\<close> is a generator: it yields a pair of a key and a session
  record per session, and the subscript \<open>sess_2_rel_path[session]\<close> raises KeyError on a
  session that the audio index lacks, which ends the generation. The result is the list of
  what was yielded, and the exception that ended the generation, if one did.
  Parameters: the audio index read from \<open>relative_audio_path.json\<close>, the attribute
  \<open>extracted_path\<close>, and \<open>load_transcript\<close>, the transcript reader of \<open>utils.py\<close>.
\<close>

fun generate ::
  "SwitchboardConfig \<Rightarrow> string \<Rightarrow> (string \<Rightarrow> string option) \<Rightarrow>
   (string \<Rightarrow> string \<Rightarrow> bool \<Rightarrow> bool \<Rightarrow> dialog) \<Rightarrow> string list \<Rightarrow>
   (string \<times> session_record) list \<times> error option" where
  "generate config extracted_path sess_2_rel_path load_transcript [] = ([], None)"
| "generate config extracted_path sess_2_rel_path load_transcript (session # rest) =
     (case sess_2_rel_path session of
        None \<Rightarrow> ([], Some (KeyError session))
      | Some rel \<Rightarrow>
          (let audio_path = join (cfg_root config) [rel @ cfg_ext config];
               session_dir = join extracted_path
                               [''swb_ms98_transcriptions'', take 2 session, session];
               dialog = load_transcript session session_dir True (cfg_remove_restarts config);
               vad = extract_vad_list_from_words dialog (cfg_min_word_vad_diff config);
               dialog' = remove_words_from_dialog dialog;
               r = generate config extracted_path sess_2_rel_path load_transcript rest
           in ((session,
                \<lparr>rec_session = session, rec_dataset = ''switchboard'',
                 rec_audio_path = audio_path, rec_vad_list = vad, rec_dialog = dialog'\<rparr>) # fst r, snd r)))"

section \<open>Window Engine, sliding-window mode\<close>

text \<open>
  Modelled from the spec: the window generation of \<open>DialogAudioDataset\<close>
  (\<open>datasets_turntaking/dialog_audio_dataset.py\<close>) is imported by \<open>dialog_audio_dm.py\<close>
  and is not among the sources. The spec: windows start at 0 and advance by
  \<open>audio_duration - audio_overlap\<close> until the session end.
  The loop has no bound of its own: with a step that is not positive it does not end,
  which is the value \<open>None\<close>.
\<close>

partial_function (option) candidate_offsets :: "rat \<Rightarrow> rat \<Rightarrow> rat \<Rightarrow> rat list option" where
  "candidate_offsets step session_end t =
     (if t < session_end
      then Option.bind (candidate_offsets step session_end (t + step)) (\<lambda>r. Some (t # r))
      else Some [])"

text \<open>
  Modelled from the spec: the voice activity inside the window \<open>[offset, offset + duration)\<close>
  is the length of the union of the segments of all channels, cut to the window. The
  segments are swept in the order of their starts; \<open>counted\<close> is the time up to which the
  activity has been counted.
\<close>

definition clip :: "rat \<Rightarrow> rat \<Rightarrow> vad_segment \<Rightarrow> vad_segment" where
  "clip offset duration seg =
     \<lparr>seg_start = max offset (seg_start seg), seg_end = min (offset + duration) (seg_end seg)\<rparr>"

fun covered :: "rat \<Rightarrow> vad_segment list \<Rightarrow> rat" where
  "covered counted [] = 0"
| "covered counted (seg # segs) =
     (let lo = max counted (seg_start seg)
      in if lo < seg_end seg then (seg_end seg - lo) + covered (seg_end seg) segs
         else covered counted segs)"

definition active_time :: "vad_list \<Rightarrow> rat \<Rightarrow> rat \<Rightarrow> rat" where
  "active_time vl offset duration =
     covered offset (sort_key seg_start (map (clip offset duration) (concat vl)))"

text \<open>
  Modelled from the spec: a window is kept only if the activity spans at least
  \<open>audio_include_ratio\<close> of its duration, and a window that would end after the session
  end (a partial window) is dropped. A window descriptor is the pair of offset and duration.
\<close>

definition keep_window :: "rat \<Rightarrow> vad_list \<Rightarrow> rat \<Rightarrow> rat \<Rightarrow> rat \<Rightarrow> bool" where
  "keep_window session_end vl audio_duration audio_include_ratio offset =
     (offset + audio_duration \<le> session_end \<and>
      audio_include_ratio \<le> active_time vl offset audio_duration / audio_duration)"

definition sliding_windows ::
  "rat \<Rightarrow> vad_list \<Rightarrow> rat \<Rightarrow> rat \<Rightarrow> rat \<Rightarrow> (rat \<times> rat) list option" where
  "sliding_windows session_end vl audio_duration audio_overlap audio_include_ratio =
     map_option
       (\<lambda>offsets. map (\<lambda>offset. (offset, audio_duration))
          (filter (keep_window session_end vl audio_duration audio_include_ratio) offsets))
       (candidate_offsets (audio_duration - audio_overlap) session_end 0)"

section \<open>History and Label Builder\<close>








text \<open>
  The window of the spec's data model. The waveform is the list of its channels; \<open>vad\<close>
  and \<open>vad_label\<close> are lists of frames and \<open>vad_history\<close> a list of entries, each frame
  and entry holding one value per channel.
\<close>

record window =
  win_session_id :: string
  win_offset :: rat
  win_duration :: rat
  win_waveform :: "rat list list"
  win_vad :: "rat list list"
  win_vad_history :: "rat list list option"
  win_vad_label :: "rat list list option"



section \<open>Augmentation: channel flip\<close>

text \<open>
  Modelled from the spec: the channel flip of \<open>DialogAudioDataset\<close> is not among the
  sources. The spec: swap the channel identity of all per-channel tensors (waveform
  channels, VAD planes, VAD-history, VAD-label). Swapping is the reversal of the channel
  axis, which for the two speakers of a dialog exchanges them.
\<close>

definition flip_window :: "window \<Rightarrow> window" where
  "flip_window w =
     w\<lparr>win_waveform := rev (win_waveform w),
       win_vad := map rev (win_vad w),
       win_vad_history := map_option (map rev) (win_vad_history w),
       win_vad_label := map_option (map rev) (win_vad_label w)\<rparr>"

text \<open>
  Modelled from the spec: the flip is applied with probability \<open>flip_probability\<close> on a
  dataset constructed with \<open>flip_channels\<close>; the random draw \<open>u\<close> from \<open>[0, 1)\<close> is passed in.
\<close>

definition channel_flip :: "('d, 't) DialogAudioDataset \<Rightarrow> rat \<Rightarrow> window \<Rightarrow> window" where
  "channel_flip dset u w =
     (if ds_flip_channels dset \<and> u < ds_flip_probability dset then flip_window w else w)"

section \<open>Properties of the collation\<close>

lemma skipped_contributes_nothing:
  "is_tensor_value t \<Longrightarrow> shape_of t = [0] \<Longrightarrow> data_of t = [] \<and> hd (shape_of t) = 0"
  by (cases t) simp_all

lemma filter_data:
  "list_all is_tensor_value ts \<Longrightarrow>
   concat (map data_of (filter (\<lambda>t. shape_of t \<noteq> [0]) ts)) = concat (map data_of ts)"
  by (induction ts) (auto dest: skipped_contributes_nothing)

lemma filter_dim0:
  "sum_list (map (\<lambda>u. hd (shape_of u)) (filter (\<lambda>t. shape_of t \<noteq> [0]) ts))
     = sum_list (map (\<lambda>u. hd (shape_of u)) ts)"
  by (induction ts) auto

lemma is_tensor_value_is_Tensor: "is_tensor_value t \<Longrightarrow> is_Tensor t"
  by (cases t) simp_all

lemma torch_cat_same_trailing:
  assumes ne: "ts \<noteq> []" and wf: "list_all is_tensor_value ts" and st: "same_trailing_shape ts"
  shows "torch_cat ts = Inr (cat_of ts)"
proof -
  let ?keep = "filter (\<lambda>t. shape_of t \<noteq> [0]) ts"
  have tens: "list_all is_Tensor ts"
    using wf by (simp add: list_all_iff is_tensor_value_is_Tensor)
  have sh: "shape_of u \<noteq> []" "tl (shape_of u) = tl (shape_of (hd ts))" if "u \<in> set ts" for u
    using st that by (simp_all add: same_trailing_shape_def list_all_iff)
  show ?thesis
  proof (cases ?keep)
    case Nil
    then have all0: "shape_of u = [0]" if "u \<in> set ts" for u
      using that by (auto simp: filter_empty_conv)
    have "hd ts \<in> set ts" using ne by simp
    from all0 [OF this] have t: "tl (shape_of (hd ts)) = []" by simp
    have d: "concat (map data_of ts) = []"
      using filter_data [OF wf] Nil by simp
    have s: "sum_list (map (\<lambda>u. hd (shape_of u)) ts) = 0"
      using filter_dim0 [of ts] Nil by simp
    show ?thesis
      using ne tens Nil by (simp add: torch_cat_def cat_of_def t d s)
  next
    case (Cons t rest)
    then have mem: "set (t # rest) \<subseteq> set ts"
      by (metis filter_is_subset)
    have nodim: "\<not> list_ex (\<lambda>u. shape_of u = []) (t # rest)"
      using mem sh(1) by (auto simp: list_ex_iff)
    have tin: "t \<in> set ts" using mem by simp
    have same: "list_all (\<lambda>u. tl (shape_of u) = tl (shape_of t)) rest"
      using mem sh(2) [OF tin] sh(2) by (auto simp: list_all_iff)
    have d: "concat (map data_of (t # rest)) = concat (map data_of ts)"
      using filter_data [OF wf] Cons by simp
    have s: "sum_list (map (\<lambda>u. hd (shape_of u)) (t # rest))
        = sum_list (map (\<lambda>u. hd (shape_of u)) ts)"
      using filter_dim0 [of ts] Cons by simp
    have "torch_cat ts = Inr (Tensor (sum_list (map (\<lambda>u. hd (shape_of u)) (t # rest))
                                   # tl (shape_of t))
                                 (concat (map data_of (t # rest))))"
      using ne tens Cons nodim same by (simp add: torch_cat_def)
    then show ?thesis
      unfolding d s cat_of_def using sh(2) [OF tin] by simp
  qed
qed

lemma present_Nil: "present key [] = []"
  by (simp add: present_def map_filter_simps)

lemma present_Cons:
  "present key (b # bs) = (case b key of None \<Rightarrow> present key bs | Some v \<Rightarrow> v # present key bs)"
  by (simp add: present_def map_filter_simps split: option.splits)

lemma append_if_in_present:
  "append_if_in b key xs @ present key bs = xs @ present key (b # bs)"
  by (simp add: append_if_in_def present_Cons split: option.splits)

lemma collect_present:
  "list_all is_example batch \<Longrightarrow>
   collect batch a =
     Inr \<lparr>l_waveforms = l_waveforms a @ present ''waveform'' batch,
          l_vad = l_vad a @ present ''vad'' batch,
          l_vad_history = l_vad_history a @ present ''vad_history'' batch,
          l_vad_label = l_vad_label a @ present ''vad_label'' batch,
          l_dset_names = l_dset_names a @ present ''dataset'' batch,
          l_sessions = l_sessions a @ present ''session'' batch\<rparr>"
proof (induction batch arbitrary: a)
  case Nil
  then show ?case by (simp add: present_Nil)
next
  case (Cons b bs)
  from Cons.prems have b: "is_example b" and bs: "list_all is_example bs" by simp_all
  from b obtain w d s where k: "b ''waveform'' = Some w" "b ''dataset'' = Some d" "b ''session'' = Some s"
    by (auto simp: is_example_def split: option.splits)
  show ?case
    by (simp add: k Cons.IH [OF bs] append_if_in_present) (simp add: present_Cons k)
qed

lemma present_tensor_values:
  "list_all is_example batch \<Longrightarrow> key \<in> {''waveform'', ''vad'', ''vad_history'', ''vad_label''} \<Longrightarrow>
   list_all is_tensor_value (present key batch)"
proof (induction batch)
  case Nil
  then show ?case by (simp add: present_Nil)
next
  case (Cons b bs)
  then show ?case
    by (auto simp: present_Cons is_example_def tensor_or_absent_def split: option.splits)
qed

lemma present_empty_iff: "present key batch = [] \<longleftrightarrow> (\<forall>b\<in>set batch. b key = None)"
  by (induction batch) (auto simp: present_Nil present_Cons split: option.splits)

lemma present_waveform_nonempty:
  "list_all is_example batch \<Longrightarrow> batch \<noteq> [] \<Longrightarrow> present ''waveform'' batch \<noteq> []"
  by (cases batch) (auto simp: present_Cons is_example_def split: option.splits)

lemma present_total:
  "\<forall>b\<in>set batch. b key \<noteq> None \<Longrightarrow> present key batch = map (\<lambda>b. the (b key)) batch"
  by (induction batch) (auto simp: present_Nil present_Cons split: option.splits)

lemma cat_if_any_present:
  assumes "list_all is_example batch" and "key \<in> {''vad'', ''vad_history'', ''vad_label''}"
    and "same_trailing_shape (present key batch)"
  shows "cat_if_any (present key batch) =
     Inr (if present key batch = [] then None else Some (cat_of (present key batch)))"
proof (cases "present key batch = []")
  case True
  then show ?thesis by (simp add: cat_if_any_def)
next
  case False
  have "list_all is_tensor_value (present key batch)"
    using assms(1,2) by (intro present_tensor_values) auto
  from torch_cat_same_trailing [OF False this assms(3)] False
  show ?thesis by (simp add: cat_if_any_def)
qed

lemma collate_fn_present:
  assumes ex: "list_all is_example batch" and ne: "batch \<noteq> []"
    and w: "same_trailing_shape (present ''waveform'' batch)"
    and v: "same_trailing_shape (present ''vad'' batch)"
    and h: "same_trailing_shape (present ''vad_history'' batch)"
    and l: "same_trailing_shape (present ''vad_label'' batch)"
  shows "collate_fn batch =
     Inr \<lparr>ret_waveform = cat_of (present ''waveform'' batch),
          ret_dset_name = present ''dataset'' batch,
          ret_session = present ''session'' batch,
          ret_vad = (if present ''vad'' batch = [] then None
                     else Some (cat_of (present ''vad'' batch))),
          ret_vad_history = (if present ''vad_history'' batch = [] then None
                     else Some (cat_of (present ''vad_history'' batch))),
          ret_vad_label = (if present ''vad_label'' batch = [] then None
                     else Some (cat_of (present ''vad_label'' batch)))\<rparr>"
proof -
  have wv: "list_all is_tensor_value (present ''waveform'' batch)"
    using ex by (intro present_tensor_values) auto
  have cw: "torch_cat (present ''waveform'' batch) = Inr (cat_of (present ''waveform'' batch))"
    by (rule torch_cat_same_trailing [OF present_waveform_nonempty [OF ex ne] wv w])
  have cv: "cat_if_any (present ''vad'' batch) =
     Inr (if present ''vad'' batch = [] then None else Some (cat_of (present ''vad'' batch)))"
    by (rule cat_if_any_present [OF ex _ v]) simp
  have ch: "cat_if_any (present ''vad_history'' batch) =
     Inr (if present ''vad_history'' batch = [] then None
          else Some (cat_of (present ''vad_history'' batch)))"
    by (rule cat_if_any_present [OF ex _ h]) simp
  have cl: "cat_if_any (present ''vad_label'' batch) =
     Inr (if present ''vad_label'' batch = [] then None
          else Some (cat_of (present ''vad_label'' batch)))"
    by (rule cat_if_any_present [OF ex _ l]) simp
  show ?thesis
    unfolding collate_fn_def
    by (simp add: collect_present [OF ex] no_lists_def cw cv ch cl)
qed

lemma present_filter:
  "present key batch = map (\<lambda>b. the (b key)) (filter (\<lambda>b. b key \<noteq> None) batch)"
  by (induction batch) (auto simp: present_Nil present_Cons split: option.splits)

text \<open>
  Claim C6, as amended. For a non-empty batch of per-example records in which the tensors
  under each key agree in the dimensions after the first, collation returns a batch: its
  waveform is the concatenation of every record's waveform, its dataset names and session
  identifiers are those of the records in record order, and each optional key (\<open>vad\<close>,
  \<open>vad_history\<close>, \<open>vad_label\<close>) is in the returned batch exactly when at least one record
  carries it, holding the concatenation over the records that carry it.
\<close>

theorem collate_fn_concatenates:
  assumes "batch \<noteq> []" and "list_all is_example batch"
    and "list_all (\<lambda>key. same_trailing_shape (present key batch))
           [''waveform'', ''vad'', ''vad_history'', ''vad_label'']"
  shows "\<exists>ret. collate_fn batch = Inr ret \<and>
     ret_waveform ret = cat_of (map (\<lambda>b. the (b ''waveform'')) batch) \<and>
     ret_dset_name ret = map (\<lambda>b. the (b ''dataset'')) batch \<and>
     ret_session ret = map (\<lambda>b. the (b ''session'')) batch \<and>
     (\<forall>key \<in> {''vad'', ''vad_history'', ''vad_label''}.
        ret_optional ret key =
          (if list_ex (\<lambda>b. b key \<noteq> None) batch
           then Some (cat_of (map (\<lambda>b. the (b key)) (filter (\<lambda>b. b key \<noteq> None) batch)))
           else None))"
proof -
  let ?cat = "\<lambda>key. if present key batch = [] then None else Some (cat_of (present key batch))"
  let ?ret = "\<lparr>ret_waveform = cat_of (present ''waveform'' batch),
          ret_dset_name = present ''dataset'' batch,
          ret_session = present ''session'' batch,
          ret_vad = ?cat ''vad'', ret_vad_history = ?cat ''vad_history'',
          ret_vad_label = ?cat ''vad_label''\<rparr>"
  from assms(3) have st: "same_trailing_shape (present ''waveform'' batch)"
    "same_trailing_shape (present ''vad'' batch)"
    "same_trailing_shape (present ''vad_history'' batch)"
    "same_trailing_shape (present ''vad_label'' batch)"
    by simp_all
  have ret: "collate_fn batch = Inr ?ret"
    by (rule collate_fn_present [OF assms(2,1) st])
  have ex: "is_example b" if "b \<in> set batch" for b
    using assms(2) that by (simp add: list_all_iff)
  have w: "present ''waveform'' batch = map (\<lambda>b. the (b ''waveform'')) batch"
  proof (rule present_total, rule ballI)
    fix b assume "b \<in> set batch"
    from ex [OF this] show "b ''waveform'' \<noteq> None"
      by (cases "b ''waveform''") (simp_all add: is_example_def)
  qed
  have d: "present ''dataset'' batch = map (\<lambda>b. the (b ''dataset'')) batch"
  proof (rule present_total, rule ballI)
    fix b assume "b \<in> set batch"
    from ex [OF this] show "b ''dataset'' \<noteq> None"
      by (simp add: is_example_def)
  qed
  have s: "present ''session'' batch = map (\<lambda>b. the (b ''session'')) batch"
  proof (rule present_total, rule ballI)
    fix b assume "b \<in> set batch"
    from ex [OF this] show "b ''session'' \<noteq> None"
      by (simp add: is_example_def)
  qed
  have any: "list_ex (\<lambda>b. b key \<noteq> None) batch \<longleftrightarrow> present key batch \<noteq> []" for key
    by (simp add: present_empty_iff list_ex_iff)
  have 1: "ret_waveform ?ret = cat_of (map (\<lambda>b. the (b ''waveform'')) batch)"
    by (simp add: w)
  have 2: "ret_dset_name ?ret = map (\<lambda>b. the (b ''dataset'')) batch"
    by (simp add: d)
  have 3: "ret_session ?ret = map (\<lambda>b. the (b ''session'')) batch"
    by (simp add: s)
  have 4: "\<forall>key \<in> {''vad'', ''vad_history'', ''vad_label''}.
        ret_optional ?ret key =
          (if list_ex (\<lambda>b. b key \<noteq> None) batch
           then Some (cat_of (map (\<lambda>b. the (b key)) (filter (\<lambda>b. b key \<noteq> None) batch)))
           else None)"
    unfolding any present_filter [symmetric] by (simp add: ret_optional_def)
  from ret 1 2 3 4 show ?thesis by blast
qed

text \<open>
  Claim C1, as amended. When some but not all records of a batch carry an optional key,
  and the tensors under each key agree in the dimensions after the first, collation raises
  no error: it returns a batch in which the key holds the concatenation over just the
  records that carry it.
\<close>

theorem collate_fn_partial_presence:
  assumes "list_all is_example batch"
    and "key \<in> {''vad'', ''vad_history'', ''vad_label''}"
    and "list_ex (\<lambda>b. b key \<noteq> None) batch"
    and "list_ex (\<lambda>b. b key = None) batch"
    and "list_all (\<lambda>key. same_trailing_shape (present key batch))
           [''waveform'', ''vad'', ''vad_history'', ''vad_label'']"
  shows "\<exists>ret. collate_fn batch = Inr ret \<and>
     ret_optional ret key
       = Some (cat_of (map (\<lambda>b. the (b key)) (filter (\<lambda>b. b key \<noteq> None) batch)))"
proof -
  from assms(3) have ne: "batch \<noteq> []" by auto
  from assms(3) have pne: "present key batch \<noteq> []"
    by (simp add: present_empty_iff list_ex_iff)
  from assms(5) have st: "same_trailing_shape (present ''waveform'' batch)"
    "same_trailing_shape (present ''vad'' batch)"
    "same_trailing_shape (present ''vad_history'' batch)"
    "same_trailing_shape (present ''vad_label'' batch)"
    by simp_all
  show ?thesis
    using assms(2) pne
    unfolding present_filter [symmetric]
    by (auto simp: collate_fn_present [OF assms(1) ne st] ret_optional_def)
qed

text \<open>
  Claim C1 as stated fails: three records of which two carry \<open>vad_history\<close> are collated
  into a batch, whose \<open>vad_history\<close> concatenates the two.
\<close>

theorem collate_fn_partial_presence_counterexample:
  "collate_fn
     [[''waveform'' \<mapsto> Tensor [1, 2] [1::int, 2], ''dataset'' \<mapsto> Str ''switchboard'',
       ''session'' \<mapsto> Str ''sw2001'', ''vad_history'' \<mapsto> Tensor [1, 1] [10]],
      [''waveform'' \<mapsto> Tensor [1, 2] [3, 4], ''dataset'' \<mapsto> Str ''switchboard'',
       ''session'' \<mapsto> Str ''sw2005'', ''vad_history'' \<mapsto> Tensor [1, 1] [20]],
      [''waveform'' \<mapsto> Tensor [1, 2] [5, 6], ''dataset'' \<mapsto> Str ''switchboard'',
       ''session'' \<mapsto> Str ''sw2006'']]
   = Inr \<lparr>ret_waveform = Tensor [3, 2] [1, 2, 3, 4, 5, 6],
          ret_dset_name = [Str ''switchboard'', Str ''switchboard'', Str ''switchboard''],
          ret_session = [Str ''sw2001'', Str ''sw2005'', Str ''sw2006''],
          ret_vad = None,
          ret_vad_history = Some (Tensor [2, 1] [10, 20]),
          ret_vad_label = None\<rparr>"
  by (simp add: collate_fn_def no_lists_def append_if_in_def torch_cat_def cat_if_any_def)

theorem collate_fn_partial_presence_witness:
  "\<exists>ret. collate_fn
     [[''waveform'' \<mapsto> Tensor [1, 2] [1::int, 2], ''dataset'' \<mapsto> Str ''switchboard'',
       ''session'' \<mapsto> Str ''sw2001'', ''vad_history'' \<mapsto> Tensor [1, 1] [10]],
      [''waveform'' \<mapsto> Tensor [1, 2] [3, 4], ''dataset'' \<mapsto> Str ''switchboard'',
       ''session'' \<mapsto> Str ''sw2005'', ''vad_history'' \<mapsto> Tensor [1, 1] [20]],
      [''waveform'' \<mapsto> Tensor [1, 2] [5, 6], ''dataset'' \<mapsto> Str ''switchboard'',
       ''session'' \<mapsto> Str ''sw2006'']] = Inr ret \<and>
     ret_optional ret ''vad_history'' = Some (Tensor [2, 1] [10, 20])"
  using collate_fn_partial_presence [of
     "[[''waveform'' \<mapsto> Tensor [1, 2] [1::int, 2], ''dataset'' \<mapsto> Str ''switchboard'',
       ''session'' \<mapsto> Str ''sw2001'', ''vad_history'' \<mapsto> Tensor [1, 1] [10]],
      [''waveform'' \<mapsto> Tensor [1, 2] [3, 4], ''dataset'' \<mapsto> Str ''switchboard'',
       ''session'' \<mapsto> Str ''sw2005'', ''vad_history'' \<mapsto> Tensor [1, 1] [20]],
      [''waveform'' \<mapsto> Tensor [1, 2] [5, 6], ''dataset'' \<mapsto> Str ''switchboard'',
       ''session'' \<mapsto> Str ''sw2006'']]" "''vad_history''"]
  by (simp add: is_example_def tensor_or_absent_def present_Cons present_Nil
      same_trailing_shape_def cat_of_def numeral_2_eq_2)

text \<open>
  Claim C6 as stated fails twice. Two records whose waveforms have the shapes \<open>(1, 2)\<close>
  and \<open>(1, 1)\<close> are not collated into a batch: \<open>torch.cat\<close> refuses them. And of two
  records of which only the first carries \<open>vad\<close>, the returned batch has the key \<open>vad\<close>,
  though not every record being batched contains it.
\<close>

theorem collate_fn_concatenates_counterexample:
  "collate_fn
     [[''waveform'' \<mapsto> Tensor [1, 2] [1::int, 2], ''dataset'' \<mapsto> Str ''switchboard'',
       ''session'' \<mapsto> Str ''sw2001''],
      [''waveform'' \<mapsto> Tensor [1, 1] [3], ''dataset'' \<mapsto> Str ''switchboard'',
       ''session'' \<mapsto> Str ''sw2005'']]
   = Inl CatShape \<and>
   collate_fn
     [[''waveform'' \<mapsto> Tensor [1, 2] [1::int, 2], ''dataset'' \<mapsto> Str ''switchboard'',
       ''session'' \<mapsto> Str ''sw2001'', ''vad'' \<mapsto> Tensor [1, 2] [1, 0]],
      [''waveform'' \<mapsto> Tensor [1, 2] [3, 4], ''dataset'' \<mapsto> Str ''switchboard'',
       ''session'' \<mapsto> Str ''sw2005'']]
   = Inr \<lparr>ret_waveform = Tensor [2, 2] [1, 2, 3, 4],
          ret_dset_name = [Str ''switchboard'', Str ''switchboard''],
          ret_session = [Str ''sw2001'', Str ''sw2005''],
          ret_vad = Some (Tensor [1, 2] [1, 0]),
          ret_vad_history = None,
          ret_vad_label = None\<rparr>"
  by (simp add: collate_fn_def no_lists_def append_if_in_def torch_cat_def cat_if_any_def)

theorem collate_fn_concatenates_witness:
  "\<exists>ret. collate_fn
     [[''waveform'' \<mapsto> Tensor [1, 2] [1::int, 2], ''dataset'' \<mapsto> Str ''switchboard'',
       ''session'' \<mapsto> Str ''sw2001'', ''vad'' \<mapsto> Tensor [1, 2, 2] [1, 0, 1, 1]],
      [''waveform'' \<mapsto> Tensor [1, 2] [3, 4], ''dataset'' \<mapsto> Str ''switchboard'',
       ''session'' \<mapsto> Str ''sw2005'', ''vad'' \<mapsto> Tensor [1, 2, 2] [0, 0, 0, 1]]] = Inr ret \<and>
     ret_waveform ret = Tensor [2, 2] [1, 2, 3, 4] \<and>
     ret_dset_name ret = [Str ''switchboard'', Str ''switchboard''] \<and>
     ret_session ret = [Str ''sw2001'', Str ''sw2005''] \<and>
     ret_optional ret ''vad'' = Some (Tensor [2, 2, 2] [1, 0, 1, 1, 0, 0, 0, 1]) \<and>
     ret_optional ret ''vad_history'' = None \<and>
     ret_optional ret ''vad_label'' = None"
  using collate_fn_concatenates [of
     "[[''waveform'' \<mapsto> Tensor [1, 2] [1::int, 2], ''dataset'' \<mapsto> Str ''switchboard'',
       ''session'' \<mapsto> Str ''sw2001'', ''vad'' \<mapsto> Tensor [1, 2, 2] [1, 0, 1, 1]],
      [''waveform'' \<mapsto> Tensor [1, 2] [3, 4], ''dataset'' \<mapsto> Str ''switchboard'',
       ''session'' \<mapsto> Str ''sw2005'', ''vad'' \<mapsto> Tensor [1, 2, 2] [0, 0, 0, 1]]]"]
  by (simp add: is_example_def tensor_or_absent_def present_Cons present_Nil
      same_trailing_shape_def cat_of_def numeral_2_eq_2)

section \<open>Properties of the VAD Extractor\<close>

lemma merge_words_starts:
  "b \<in> set (merge_words tol cur ws) \<Longrightarrow>
   seg_start b = seg_start cur \<or> seg_start b \<in> word_start ` set ws"
proof (induction ws arbitrary: cur)
  case Nil
  then show ?case by simp
next
  case (Cons w ws)
  show ?case
  proof (cases "word_start w - seg_end cur \<le> tol")
    case True
    with Cons.prems
    have "b \<in> set (merge_words tol (cur\<lparr>seg_end := max (seg_end cur) (word_end w)\<rparr>) ws)"
      by simp
    from Cons.IH [OF this] show ?thesis by auto
  next
    case False
    with Cons.prems
    have "b = cur \<or> b \<in> set (merge_words tol \<lparr>seg_start = word_start w, seg_end = word_end w\<rparr> ws)"
      by simp
    then show ?thesis
    proof
      assume "b = cur"
      then show ?thesis by simp
    next
      assume "b \<in> set (merge_words tol \<lparr>seg_start = word_start w, seg_end = word_end w\<rparr> ws)"
      from Cons.IH [OF this] show ?thesis by auto
    qed
  qed
qed

lemma merge_words_pairs:
  "sorted (map word_start ws) \<Longrightarrow> \<forall>w\<in>set ws. seg_start cur \<le> word_start w \<Longrightarrow>
   sorted_wrt (\<lambda>a b. seg_start a \<le> seg_start b \<and> tol < seg_start b - seg_end a)
     (merge_words tol cur ws)"
proof (induction ws arbitrary: cur)
  case Nil
  then show ?case by simp
next
  case (Cons w ws)
  from Cons.prems have sorted_ws: "sorted (map word_start ws)"
    and w_le: "\<forall>v\<in>set ws. word_start w \<le> word_start v"
    and cur_le: "seg_start cur \<le> word_start w" "\<forall>v\<in>set ws. seg_start cur \<le> word_start v"
    by auto
  show ?case
  proof (cases "word_start w - seg_end cur \<le> tol")
    case True
    have "sorted_wrt (\<lambda>a b. seg_start a \<le> seg_start b \<and> tol < seg_start b - seg_end a)
            (merge_words tol (cur\<lparr>seg_end := max (seg_end cur) (word_end w)\<rparr>) ws)"
      using cur_le by (intro Cons.IH [OF sorted_ws]) simp
    with True show ?thesis by simp
  next
    case False
    let ?new = "\<lparr>seg_start = word_start w, seg_end = word_end w\<rparr>"
    have rest: "sorted_wrt (\<lambda>a b. seg_start a \<le> seg_start b \<and> tol < seg_start b - seg_end a)
            (merge_words tol ?new ws)"
      using w_le by (intro Cons.IH [OF sorted_ws]) simp
    have later: "word_start w \<le> seg_start b" if "b \<in> set (merge_words tol ?new ws)" for b
    proof -
      from merge_words_starts [OF that]
      have "seg_start b \<in> insert (word_start w) (word_start ` set ws)" by auto
      with w_le show ?thesis by auto
    qed
    have "seg_start cur \<le> seg_start b \<and> tol < seg_start b - seg_end cur"
      if "b \<in> set (merge_words tol ?new ws)" for b
      using later [OF that] cur_le(1) False by simp
    with rest False show ?thesis by simp
  qed
qed

lemma vad_of_words_pairs:
  "sorted_wrt (\<lambda>a b. seg_start a \<le> seg_start b \<and> tol < seg_start b - seg_end a)
     (vad_of_words tol ws)"
proof (cases "sort_key word_start ws")
  case Nil
  then show ?thesis by (simp add: vad_of_words_def)
next
  case (Cons w rest)
  have "sorted (map word_start (sort_key word_start ws))" by (rule sorted_sort_key)
  with Cons have "sorted (map word_start rest)" "\<forall>v\<in>set rest. word_start w \<le> word_start v"
    by auto
  then have "sorted_wrt (\<lambda>a b. seg_start a \<le> seg_start b \<and> tol < seg_start b - seg_end a)
     (merge_words tol \<lparr>seg_start = word_start w, seg_end = word_end w\<rparr> rest)"
    by (intro merge_words_pairs) simp_all
  with Cons show ?thesis by (simp add: vad_of_words_def)
qed

lemma vad_of_words_sorted: "sorted_segments (vad_of_words tol ws)"
  unfolding sorted_segments_def
  by (rule sorted_wrt_mono_rel [OF _ vad_of_words_pairs [of tol ws]]) simp

lemma vad_of_words_gaps: "gaps_exceed tol (vad_of_words tol ws)"
  unfolding gaps_exceed_def
  by (rule successively_if_sorted_wrt)
     (rule sorted_wrt_mono_rel [OF _ vad_of_words_pairs [of tol ws]], simp)

lemma vad_of_words_non_overlapping: "0 \<le> tol \<Longrightarrow> non_overlapping (vad_of_words tol ws)"
  unfolding non_overlapping_def
  by (rule sorted_wrt_mono_rel [OF _ vad_of_words_pairs [of tol ws]]) auto

lemma merge_words_disjoint:
  "sorted_wrt (\<lambda>w v. word_end w \<le> word_start v) ws \<Longrightarrow>
   \<forall>w\<in>set ws. seg_end cur \<le> word_start w \<Longrightarrow>
   sorted_wrt (\<lambda>a b. seg_end a \<le> seg_start b) (merge_words tol cur ws)"
proof (induction ws arbitrary: cur)
  case Nil
  then show ?case by simp
next
  case (Cons w ws)
  from Cons.prems have ws: "sorted_wrt (\<lambda>w v. word_end w \<le> word_start v) ws"
    and w_le: "\<forall>v\<in>set ws. word_end w \<le> word_start v"
    and cur_le: "seg_end cur \<le> word_start w" "\<forall>v\<in>set ws. seg_end cur \<le> word_start v"
    by auto
  show ?case
  proof (cases "word_start w - seg_end cur \<le> tol")
    case True
    have "sorted_wrt (\<lambda>a b. seg_end a \<le> seg_start b)
            (merge_words tol (cur\<lparr>seg_end := max (seg_end cur) (word_end w)\<rparr>) ws)"
      using cur_le(2) w_le by (intro Cons.IH [OF ws]) simp
    with True show ?thesis by simp
  next
    case False
    let ?new = "\<lparr>seg_start = word_start w, seg_end = word_end w\<rparr>"
    have rest: "sorted_wrt (\<lambda>a b. seg_end a \<le> seg_start b) (merge_words tol ?new ws)"
      using w_le by (intro Cons.IH [OF ws]) simp
    have "seg_end cur \<le> seg_start b" if "b \<in> set (merge_words tol ?new ws)" for b
    proof -
      from merge_words_starts [OF that]
      have "seg_start b \<in> insert (word_start w) (word_start ` set ws)" by auto
      with cur_le show ?thesis by auto
    qed
    with rest False show ?thesis by simp
  qed
qed

lemma vad_of_words_disjoint:
  assumes "words_do_not_overlap ws"
  shows "non_overlapping (vad_of_words tol ws)"
proof (cases "sort_key word_start ws")
  case Nil
  then show ?thesis by (simp add: vad_of_words_def non_overlapping_def)
next
  case (Cons w rest)
  with assms have "sorted_wrt (\<lambda>w v. word_end w \<le> word_start v) rest"
    "\<forall>v\<in>set rest. word_end w \<le> word_start v"
    by (simp_all add: words_do_not_overlap_def)
  then have "sorted_wrt (\<lambda>a b. seg_end a \<le> seg_start b)
     (merge_words tol \<lparr>seg_start = word_start w, seg_end = word_end w\<rparr> rest)"
    by (intro merge_words_disjoint) simp_all
  then have "sorted_wrt (\<lambda>a b. min (seg_end a) (seg_end b) \<le> max (seg_start a) (seg_start b))
     (merge_words tol \<lparr>seg_start = word_start w, seg_end = word_end w\<rparr> rest)"
    by (rule sorted_wrt_mono_rel [rotated]) auto
  with Cons show ?thesis by (simp add: vad_of_words_def non_overlapping_def)
qed

text \<open>
  Claim C3, as amended. For every word-level dialog and every tolerance, the segment list
  of every channel is sorted and every gap between consecutive segments exceeds the
  tolerance; the list is non-overlapping whenever the tolerance is not negative or the
  words of the channel do not overlap one another.
\<close>

theorem extract_vad_list_segments:
  "\<forall>c < length (extract_vad_list_from_words d tol).
     sorted_segments (extract_vad_list_from_words d tol ! c) \<and>
     gaps_exceed tol (extract_vad_list_from_words d tol ! c) \<and>
     (0 \<le> tol \<or> words_do_not_overlap (channel_words d c) \<longrightarrow>
        non_overlapping (extract_vad_list_from_words d tol ! c))"
  by (auto simp: extract_vad_list_from_words_def vad_of_words_sorted vad_of_words_gaps
      vad_of_words_non_overlapping vad_of_words_disjoint)

text \<open>
  Claim C3 as stated fails for a negative tolerance and overlapping words: with the
  tolerance -1, a word that starts half a second before the previous word ends is not
  merged, and the segment it opens overlaps the previous one.
\<close>

theorem extract_vad_list_segments_counterexample:
  "extract_vad_list_from_words
     [\<lparr>turn_channel = 0, turn_start = 0, turn_end = 6, turn_text = ''so yeah'',
       turn_words = Some [\<lparr>word_text = ''so'', word_start = 0, word_end = 5, word_channel = 0\<rparr>,
                          \<lparr>word_text = ''yeah'', word_start = 9 / 2, word_end = 6,
                           word_channel = 0\<rparr>]\<rparr>] (- 1)
     = [[\<lparr>seg_start = 0, seg_end = 5\<rparr>, \<lparr>seg_start = 9 / 2, seg_end = 6\<rparr>]] \<and>
   \<not> non_overlapping [\<lparr>seg_start = 0, seg_end = 5\<rparr>, \<lparr>seg_start = 9 / 2, seg_end = 6\<rparr>]"
  by (simp add: extract_vad_list_from_words_def channel_words_def words_of_dialog_def
      n_channels_def vad_of_words_def non_overlapping_def)

theorem extract_vad_list_segments_witness:
  "extract_vad_list_from_words
     [\<lparr>turn_channel = 0, turn_start = 0, turn_end = 3, turn_text = ''so yeah right'',
       turn_words = Some [\<lparr>word_text = ''right'', word_start = 2, word_end = 3, word_channel = 0\<rparr>,
                          \<lparr>word_text = ''so'', word_start = 0, word_end = 1 / 2, word_channel = 0\<rparr>,
                          \<lparr>word_text = ''yeah'', word_start = 2 / 5, word_end = 1,
                           word_channel = 0\<rparr>]\<rparr>] (1 / 10)
     = [[\<lparr>seg_start = 0, seg_end = 1\<rparr>, \<lparr>seg_start = 2, seg_end = 3\<rparr>]] \<and>
   sorted_segments [\<lparr>seg_start = 0, seg_end = 1\<rparr>, \<lparr>seg_start = 2, seg_end = 3\<rparr>] \<and>
   gaps_exceed (1 / 10) [\<lparr>seg_start = 0, seg_end = 1\<rparr>, \<lparr>seg_start = 2, seg_end = 3\<rparr>] \<and>
   non_overlapping [\<lparr>seg_start = 0, seg_end = 1\<rparr>, \<lparr>seg_start = 2, seg_end = 3\<rparr>] \<and>
   extract_vad_list_from_words
     [\<lparr>turn_channel = 0, turn_start = 0, turn_end = 1, turn_text = ''so yeah'',
       turn_words = Some [\<lparr>word_text = ''so'', word_start = 0, word_end = 1 / 2, word_channel = 0\<rparr>,
                          \<lparr>word_text = ''yeah'', word_start = 1 / 2, word_end = 1,
                           word_channel = 0\<rparr>]\<rparr>] (- 1)
     = [[\<lparr>seg_start = 0, seg_end = 1 / 2\<rparr>, \<lparr>seg_start = 1 / 2, seg_end = 1\<rparr>]] \<and>
   non_overlapping [\<lparr>seg_start = 0, seg_end = 1 / 2\<rparr>, \<lparr>seg_start = 1 / 2, seg_end = 1\<rparr>]"
proof -
  let ?d1 = "[\<lparr>turn_channel = 0, turn_start = 0, turn_end = 3, turn_text = ''so yeah right'',
       turn_words = Some [\<lparr>word_text = ''right'', word_start = 2, word_end = 3, word_channel = 0\<rparr>,
                          \<lparr>word_text = ''so'', word_start = 0, word_end = 1 / 2, word_channel = 0\<rparr>,
                          \<lparr>word_text = ''yeah'', word_start = 2 / 5, word_end = 1,
                           word_channel = 0\<rparr>]\<rparr>]"
  let ?d2 = "[\<lparr>turn_channel = 0, turn_start = 0, turn_end = 1, turn_text = ''so yeah'',
       turn_words = Some [\<lparr>word_text = ''so'', word_start = 0, word_end = 1 / 2, word_channel = 0\<rparr>,
                          \<lparr>word_text = ''yeah'', word_start = 1 / 2, word_end = 1,
                           word_channel = 0\<rparr>]\<rparr>]"
  have e1: "extract_vad_list_from_words ?d1 (1 / 10)
      = [[\<lparr>seg_start = 0, seg_end = 1\<rparr>, \<lparr>seg_start = 2, seg_end = 3\<rparr>]]"
    by (simp add: extract_vad_list_from_words_def channel_words_def words_of_dialog_def
        n_channels_def vad_of_words_def)
  have e2: "extract_vad_list_from_words ?d2 (- 1)
      = [[\<lparr>seg_start = 0, seg_end = 1 / 2\<rparr>, \<lparr>seg_start = 1 / 2, seg_end = 1\<rparr>]]"
    by (simp add: extract_vad_list_from_words_def channel_words_def words_of_dialog_def
        n_channels_def vad_of_words_def)
  have w2: "words_do_not_overlap (channel_words ?d2 0)"
    by (simp add: words_do_not_overlap_def channel_words_def words_of_dialog_def)
  from extract_vad_list_segments [of ?d1 "1 / 10"] extract_vad_list_segments [of ?d2 "- 1"] w2
  show ?thesis
    unfolding e1 e2 by simp
qed

section \<open>Properties of the session generator\<close>

lemma generate_keys:
  "map fst (fst (generate config extracted_path sess_2_rel_path load_transcript sessions))
     = takeWhile (\<lambda>s. sess_2_rel_path s \<noteq> None) sessions"
  by (induction sessions) (auto simp: Let_def split: option.splits)

lemma generate_sessions:
  "map (\<lambda>kr. rec_session (snd kr))
       (fst (generate config extracted_path sess_2_rel_path load_transcript sessions))
     = takeWhile (\<lambda>s. sess_2_rel_path s \<noteq> None) sessions"
  by (induction sessions) (auto simp: Let_def split: option.splits)

lemma generate_error:
  "snd (generate config extracted_path sess_2_rel_path load_transcript sessions)
     = (case dropWhile (\<lambda>s. sess_2_rel_path s \<noteq> None) sessions of
          [] \<Rightarrow> None | s # rest \<Rightarrow> Some (KeyError s))"
  by (induction sessions) (auto simp: Let_def split: option.splits)

text \<open>
  Claim C8. The records are yielded for the sessions before the first one that the audio
  index lacks, one per session and in list order. If the list holds a session that the
  index lacks, the generation ends with the KeyError of that lookup (the spec's
  UnknownSession), so the session is not skipped; if the index holds every session of the
  list, the generation ends without error and yields exactly one record per session, in
  list order.
\<close>

theorem generate_unknown_session:
  "map fst (fst (generate config extracted_path sess_2_rel_path load_transcript sessions))
     = takeWhile (\<lambda>s. sess_2_rel_path s \<noteq> None) sessions \<and>
   (list_ex (\<lambda>s. sess_2_rel_path s = None) sessions \<longrightarrow>
      (\<exists>s. snd (generate config extracted_path sess_2_rel_path load_transcript sessions)
              = Some (KeyError s) \<and>
           s \<in> set sessions \<and> sess_2_rel_path s = None)) \<and>
   (list_all (\<lambda>s. sess_2_rel_path s \<noteq> None) sessions \<longrightarrow>
      snd (generate config extracted_path sess_2_rel_path load_transcript sessions) = None \<and>
      map fst (fst (generate config extracted_path sess_2_rel_path load_transcript sessions))
        = sessions \<and>
      map (\<lambda>kr. rec_session (snd kr))
          (fst (generate config extracted_path sess_2_rel_path load_transcript sessions))
        = sessions)"
proof (intro conjI impI)
  show "map fst (fst (generate config extracted_path sess_2_rel_path load_transcript sessions))
     = takeWhile (\<lambda>s. sess_2_rel_path s \<noteq> None) sessions"
    by (rule generate_keys)
next
  assume "list_ex (\<lambda>s. sess_2_rel_path s = None) sessions"
  then have "\<exists>s\<in>set sessions. \<not> sess_2_rel_path s \<noteq> None"
    by (simp add: list_ex_iff)
  then have ne: "dropWhile (\<lambda>s. sess_2_rel_path s \<noteq> None) sessions \<noteq> []"
    by (simp add: dropWhile_eq_Nil_conv)
  then obtain s rest where d: "dropWhile (\<lambda>s. sess_2_rel_path s \<noteq> None) sessions = s # rest"
    by (cases "dropWhile (\<lambda>s. sess_2_rel_path s \<noteq> None) sessions") auto
  from ne have "hd (dropWhile (\<lambda>s. sess_2_rel_path s \<noteq> None) sessions) = s"
    "\<not> sess_2_rel_path (hd (dropWhile (\<lambda>s. sess_2_rel_path s \<noteq> None) sessions)) \<noteq> None"
    using d hd_dropWhile [OF ne] by simp_all
  then have absent: "sess_2_rel_path s = None" by simp
  have "s \<in> set (dropWhile (\<lambda>s. sess_2_rel_path s \<noteq> None) sessions)" unfolding d by simp
  then have mem: "s \<in> set sessions" by (rule set_dropWhileD)
  show "\<exists>s. snd (generate config extracted_path sess_2_rel_path load_transcript sessions)
              = Some (KeyError s) \<and> s \<in> set sessions \<and> sess_2_rel_path s = None"
  proof (intro exI conjI)
    show "snd (generate config extracted_path sess_2_rel_path load_transcript sessions)
              = Some (KeyError s)"
      unfolding generate_error d by simp
  qed (rule mem, rule absent)
next
  assume a: "list_all (\<lambda>s. sess_2_rel_path s \<noteq> None) sessions"
  then have t: "takeWhile (\<lambda>s. sess_2_rel_path s \<noteq> None) sessions = sessions"
    and d: "dropWhile (\<lambda>s. sess_2_rel_path s \<noteq> None) sessions = []"
    by (simp_all add: list_all_iff)
  show "snd (generate config extracted_path sess_2_rel_path load_transcript sessions) = None"
    unfolding generate_error d by simp
  show "map fst (fst (generate config extracted_path sess_2_rel_path load_transcript sessions))
        = sessions"
    unfolding generate_keys t by simp
  show "map (\<lambda>kr. rec_session (snd kr))
          (fst (generate config extracted_path sess_2_rel_path load_transcript sessions))
        = sessions"
    unfolding generate_sessions t by simp
qed


lemma remove_words_keeps_turns:
  "map (\<lambda>t. (turn_channel t, turn_start t, turn_end t, turn_text t)) (remove_words_from_dialog d)
     = map (\<lambda>t. (turn_channel t, turn_start t, turn_end t, turn_text t)) d"
  by (simp add: remove_words_from_dialog_def)


theorem generate_unknown_session_witness:
  "snd (generate
          \<lparr>cfg_ext = ''.wav'', cfg_root = ''/data/swb'', cfg_min_word_vad_diff = 1 / 10,
           cfg_remove_restarts = False, cfg_train_sessions = [''2001'', ''9999'', ''2005''],
           cfg_val_sessions = [], cfg_test_sessions = []\<rparr>
          ''/cache'' [''2001'' \<mapsto> ''swb1/sw02001'', ''2005'' \<mapsto> ''swb1/sw02005'']
          (\<lambda>session session_dir apply_regexp remove_restarts. [])
          [''2001'', ''9999'', ''2005''])
     = Some (KeyError ''9999'') \<and>
   map fst (fst (generate
          \<lparr>cfg_ext = ''.wav'', cfg_root = ''/data/swb'', cfg_min_word_vad_diff = 1 / 10,
           cfg_remove_restarts = False, cfg_train_sessions = [''2001'', ''9999'', ''2005''],
           cfg_val_sessions = [], cfg_test_sessions = []\<rparr>
          ''/cache'' [''2001'' \<mapsto> ''swb1/sw02001'', ''2005'' \<mapsto> ''swb1/sw02005'']
          (\<lambda>session session_dir apply_regexp remove_restarts. [])
          [''2001'', ''2005'']))
     = [''2001'', ''2005'']"
  using
    generate_unknown_session [where sessions = "[''2001'', ''9999'', ''2005'']"
      and sess_2_rel_path = "[''2001'' \<mapsto> ''swb1/sw02001'', ''2005'' \<mapsto> ''swb1/sw02005'']"
      and config = "\<lparr>cfg_ext = ''.wav'', cfg_root = ''/data/swb'', cfg_min_word_vad_diff = 1 / 10,
           cfg_remove_restarts = False, cfg_train_sessions = [''2001'', ''9999'', ''2005''],
           cfg_val_sessions = [], cfg_test_sessions = []\<rparr>"
      and extracted_path = "''/cache''"
      and load_transcript = "\<lambda>session session_dir apply_regexp remove_restarts. []"]
    generate_unknown_session [where sessions = "[''2001'', ''2005'']"
      and sess_2_rel_path = "[''2001'' \<mapsto> ''swb1/sw02001'', ''2005'' \<mapsto> ''swb1/sw02005'']"
      and config = "\<lparr>cfg_ext = ''.wav'', cfg_root = ''/data/swb'', cfg_min_word_vad_diff = 1 / 10,
           cfg_remove_restarts = False, cfg_train_sessions = [''2001'', ''9999'', ''2005''],
           cfg_val_sessions = [], cfg_test_sessions = []\<rparr>"
      and extracted_path = "''/cache''"
      and load_transcript = "\<lambda>session session_dir apply_regexp remove_restarts. []"]
  by simp


section \<open>Properties of the data module and of the channel flip\<close>

lemma flip_window_twice: "flip_window (flip_window w) = w"
  by (simp add: flip_window_def option.map_comp comp_def option.map_ident)

text \<open>
  Claim C10. For every split, \<open>_dataset\<close> hands the configured \<open>mask_vad\<close> and
  \<open>mask_vad_probability\<close> on unchanged; so do the train, validation and test datasets that
  \<open>setup\<close> constructs.
\<close>

theorem mask_vad_every_split:
  "ds_mask_vad (DialogAudioDM_dataset self dset split) = dm_mask_vad self \<and>
   ds_mask_vad_probability (DialogAudioDM_dataset self dset split) = dm_mask_vad_probability self \<and>
   map_option (\<lambda>d. (ds_mask_vad d, ds_mask_vad_probability d))
       (train_dset (DialogAudioDM_setup self load None attrs))
     = Some (dm_mask_vad self, dm_mask_vad_probability self) \<and>
   map_option (\<lambda>d. (ds_mask_vad d, ds_mask_vad_probability d))
       (val_dset (DialogAudioDM_setup self load None attrs))
     = Some (dm_mask_vad self, dm_mask_vad_probability self) \<and>
   map_option (\<lambda>d. (ds_mask_vad d, ds_mask_vad_probability d))
       (test_dset (DialogAudioDM_setup self load None attrs))
     = Some (dm_mask_vad self, dm_mask_vad_probability self)"
  by (simp add: DialogAudioDM_dataset_def DialogAudioDM_setup_def Let_def)

text \<open>
  Claim C5. For a split other than \<open>train\<close> the dataset is constructed with channel
  flipping disabled whatever \<open>flip_channels\<close> is configured, so no access to it flips; for
  \<open>train\<close> the configured value is handed on; the validation and test datasets that
  \<open>setup\<close> constructs have flipping disabled. An access either leaves the window as it is
  or flips it, and a flip reverses the channel axis of the waveform, of every \<open>vad\<close> frame,
  of every \<open>vad_history\<close> entry and of every \<open>vad_label\<close> frame, all four of them; flipping
  twice gives the window back.
\<close>

theorem flip_only_when_training:
  "(split \<noteq> ''train'' \<longrightarrow>
      ds_flip_channels (DialogAudioDM_dataset self dset split) = False \<and>
      channel_flip (DialogAudioDM_dataset self dset split) u w = w) \<and>
   ds_flip_channels (DialogAudioDM_dataset self dset ''train'') = dm_flip_channels self \<and>
   map_option ds_flip_channels (val_dset (DialogAudioDM_setup self load None attrs))
     = Some False \<and>
   map_option ds_flip_channels (test_dset (DialogAudioDM_setup self load None attrs))
     = Some False \<and>
   (channel_flip d u w = w \<or> channel_flip d u w = flip_window w) \<and>
   win_waveform (flip_window w) = rev (win_waveform w) \<and>
   win_vad (flip_window w) = map rev (win_vad w) \<and>
   win_vad_history (flip_window w) = map_option (map rev) (win_vad_history w) \<and>
   win_vad_label (flip_window w) = map_option (map rev) (win_vad_label w) \<and>
   flip_window (flip_window w) = w"
  by (simp add: DialogAudioDM_dataset_def DialogAudioDM_setup_def Let_def channel_flip_def
      flip_window_twice) (simp add: flip_window_def)

theorem flip_only_when_training_witness:
  "ds_flip_channels (DialogAudioDM_dataset
      (\<lparr>dm_datasets = [''switchboard''], dm_type = ''sliding'', dm_transforms = None,
       dm_audio_mono = True, dm_audio_duration = 10, dm_sample_rate = 16000,
       dm_audio_overlap = 2, dm_audio_normalize = True, dm_audio_include_ratio = 2 / 5,
       dm_audio_context_duration = 8, dm_ipu_min_time = 1, dm_ipu_pause_time = 1 / 5,
       dm_vad = True, dm_vad_hz = 50, dm_vad_horizon = 2, dm_vad_history = False,
       dm_vad_history_times = [60, 30, 10, 5], dm_flip_channels = True,
       dm_flip_probability = 1 / 2, dm_mask_vad = False, dm_mask_vad_probability = 1 / 2,
       dm_batch_size = 4, dm_pin_memory = True, dm_num_workers = 0\<rparr> :: unit DialogAudioDM) () ''val'') = False \<and>
   channel_flip (DialogAudioDM_dataset
      (\<lparr>dm_datasets = [''switchboard''], dm_type = ''sliding'', dm_transforms = None,
       dm_audio_mono = True, dm_audio_duration = 10, dm_sample_rate = 16000,
       dm_audio_overlap = 2, dm_audio_normalize = True, dm_audio_include_ratio = 2 / 5,
       dm_audio_context_duration = 8, dm_ipu_min_time = 1, dm_ipu_pause_time = 1 / 5,
       dm_vad = True, dm_vad_hz = 50, dm_vad_horizon = 2, dm_vad_history = False,
       dm_vad_history_times = [60, 30, 10, 5], dm_flip_channels = True,
       dm_flip_probability = 1 / 2, dm_mask_vad = False, dm_mask_vad_probability = 1 / 2,
       dm_batch_size = 4, dm_pin_memory = True, dm_num_workers = 0\<rparr> :: unit DialogAudioDM) () ''val'') 0
      \<lparr>win_session_id = ''2001'', win_offset = 0, win_duration = 1,
       win_waveform = [[1, 2], [3, 4]], win_vad = [[1, 0], [1, 1]],
       win_vad_history = Some [[1 / 2, 0]], win_vad_label = Some [[0, 1]]\<rparr>
    = \<lparr>win_session_id = ''2001'', win_offset = 0, win_duration = 1,
       win_waveform = [[1, 2], [3, 4]], win_vad = [[1, 0], [1, 1]],
       win_vad_history = Some [[1 / 2, 0]], win_vad_label = Some [[0, 1]]\<rparr> \<and>
   channel_flip (DialogAudioDM_dataset
      (\<lparr>dm_datasets = [''switchboard''], dm_type = ''sliding'', dm_transforms = None,
       dm_audio_mono = True, dm_audio_duration = 10, dm_sample_rate = 16000,
       dm_audio_overlap = 2, dm_audio_normalize = True, dm_audio_include_ratio = 2 / 5,
       dm_audio_context_duration = 8, dm_ipu_min_time = 1, dm_ipu_pause_time = 1 / 5,
       dm_vad = True, dm_vad_hz = 50, dm_vad_horizon = 2, dm_vad_history = False,
       dm_vad_history_times = [60, 30, 10, 5], dm_flip_channels = True,
       dm_flip_probability = 1 / 2, dm_mask_vad = False, dm_mask_vad_probability = 1 / 2,
       dm_batch_size = 4, dm_pin_memory = True, dm_num_workers = 0\<rparr> :: unit DialogAudioDM) () ''train'') 0
      \<lparr>win_session_id = ''2001'', win_offset = 0, win_duration = 1,
       win_waveform = [[1, 2], [3, 4]], win_vad = [[1, 0], [1, 1]],
       win_vad_history = Some [[1 / 2, 0]], win_vad_label = Some [[0, 1]]\<rparr>
    = \<lparr>win_session_id = ''2001'', win_offset = 0, win_duration = 1,
       win_waveform = [[3, 4], [1, 2]], win_vad = [[0, 1], [1, 1]],
       win_vad_history = Some [[0, 1 / 2]], win_vad_label = Some [[1, 0]]\<rparr>"
  using flip_only_when_training [where split = "''val''" and dset = "()" and u = 0
      and self = "\<lparr>dm_datasets = [''switchboard''], dm_type = ''sliding'', dm_transforms = None,
       dm_audio_mono = True, dm_audio_duration = 10, dm_sample_rate = 16000,
       dm_audio_overlap = 2, dm_audio_normalize = True, dm_audio_include_ratio = 2 / 5,
       dm_audio_context_duration = 8, dm_ipu_min_time = 1, dm_ipu_pause_time = 1 / 5,
       dm_vad = True, dm_vad_hz = 50, dm_vad_horizon = 2, dm_vad_history = False,
       dm_vad_history_times = [60, 30, 10, 5], dm_flip_channels = True,
       dm_flip_probability = 1 / 2, dm_mask_vad = False, dm_mask_vad_probability = 1 / 2,
       dm_batch_size = 4, dm_pin_memory = True, dm_num_workers = 0\<rparr> :: unit DialogAudioDM"
      and w = "\<lparr>win_session_id = ''2001'', win_offset = 0, win_duration = 1,
       win_waveform = [[1, 2], [3, 4]], win_vad = [[1, 0], [1, 1]],
       win_vad_history = Some [[1 / 2, 0]], win_vad_label = Some [[0, 1]]\<rparr>"
      and d = "DialogAudioDM_dataset
      (\<lparr>dm_datasets = [''switchboard''], dm_type = ''sliding'', dm_transforms = None,
       dm_audio_mono = True, dm_audio_duration = 10, dm_sample_rate = 16000,
       dm_audio_overlap = 2, dm_audio_normalize = True, dm_audio_include_ratio = 2 / 5,
       dm_audio_context_duration = 8, dm_ipu_min_time = 1, dm_ipu_pause_time = 1 / 5,
       dm_vad = True, dm_vad_hz = 50, dm_vad_horizon = 2, dm_vad_history = False,
       dm_vad_history_times = [60, 30, 10, 5], dm_flip_channels = True,
       dm_flip_probability = 1 / 2, dm_mask_vad = False, dm_mask_vad_probability = 1 / 2,
       dm_batch_size = 4, dm_pin_memory = True, dm_num_workers = 0\<rparr> :: unit DialogAudioDM) () ''train''"]
  by (simp add: DialogAudioDM_dataset_def channel_flip_def flip_window_def)

section \<open>Properties of the sliding windows\<close>

lemma candidate_offsets_closed:
  assumes "0 < step"
  shows "candidate_offsets step session_end t
     = Some (map (\<lambda>k. t + of_nat k * step) [0 ..< nat \<lceil>(session_end - t) / step\<rceil>])"
proof (induction "nat \<lceil>(session_end - t) / step\<rceil>" arbitrary: t)
  case 0
  then have "\<lceil>(session_end - t) / step\<rceil> \<le> 0" by simp
  then have "(session_end - t) / step \<le> 0" by simp
  with assms have "session_end - t \<le> 0" by (simp add: divide_le_0_iff)
  then have "\<not> t < session_end" by simp
  with 0 show ?case by (subst candidate_offsets.simps) simp
next
  case (Suc n)
  then have pos: "0 < \<lceil>(session_end - t) / step\<rceil>" by linarith
  then have "0 < (session_end - t) / step" by simp
  with assms have lt: "t < session_end" by (simp add: zero_less_divide_iff)
  have "(session_end - (t + step)) / step = (session_end - t) / step - 1"
    using assms by (simp add: field_simps)
  then have "nat \<lceil>(session_end - (t + step)) / step\<rceil> = n"
    using Suc(2) by simp
  then have "n = nat \<lceil>(session_end - (t + step)) / step\<rceil>" by simp
  from Suc(1) [OF this]
  have rest: "candidate_offsets step session_end (t + step)
     = Some (map (\<lambda>k. t + step + of_nat k * step) [0 ..< n])"
    using \<open>nat \<lceil>(session_end - (t + step)) / step\<rceil> = n\<close> by simp
  have "map (\<lambda>k. t + of_nat k * step) [0 ..< Suc n]
      = t # map (\<lambda>k. t + step + of_nat k * step) [0 ..< n]"
    by (simp only: map_upt_Suc) (simp add: algebra_simps)
  with lt rest Suc(2) [symmetric] show ?case
    by (subst candidate_offsets.simps) simp
qed

text \<open>
  Claim C2. With a positive \<open>audio_duration\<close> and an \<open>audio_overlap\<close> below it, the
  generation ends; the candidate offsets are the multiples \<open>0, step, 2 step, ...\<close> of
  \<open>step = audio_duration - audio_overlap\<close> that lie before the session end; and the
  windows are those candidates, in order, that end no later than the session end and
  whose voice activity is at least \<open>audio_include_ratio\<close> of \<open>audio_duration\<close>. At the
  spec's example (the witness) the candidates are 0, 4, 8, 12, 16, the window at 0 is kept
  and the window at 8 is discarded.
\<close>

theorem sliding_windows_offsets:
  assumes "0 < audio_duration" and "audio_overlap < audio_duration"
  shows "candidate_offsets (audio_duration - audio_overlap) session_end 0
      = Some (map (\<lambda>k. of_nat k * (audio_duration - audio_overlap))
                [0 ..< nat \<lceil>session_end / (audio_duration - audio_overlap)\<rceil>]) \<and>
    sliding_windows session_end vl audio_duration audio_overlap audio_include_ratio
      = Some (map (\<lambda>offset. (offset, audio_duration))
               (filter (\<lambda>offset. offset + audio_duration \<le> session_end \<and>
                           audio_include_ratio * audio_duration
                             \<le> active_time vl offset audio_duration)
                  (map (\<lambda>k. of_nat k * (audio_duration - audio_overlap))
                     [0 ..< nat \<lceil>session_end / (audio_duration - audio_overlap)\<rceil>])))"
proof -
  from assms(2) have step: "0 < audio_duration - audio_overlap" by simp
  have c: "candidate_offsets (audio_duration - audio_overlap) session_end 0
      = Some (map (\<lambda>k. of_nat k * (audio_duration - audio_overlap))
                [0 ..< nat \<lceil>session_end / (audio_duration - audio_overlap)\<rceil>])"
    using candidate_offsets_closed [OF step, of session_end 0] by simp
  have k: "keep_window session_end vl audio_duration audio_include_ratio
      = (\<lambda>offset. offset + audio_duration \<le> session_end \<and>
                           audio_include_ratio * audio_duration
                             \<le> active_time vl offset audio_duration)"
    using assms(1) by (simp add: keep_window_def fun_eq_iff pos_le_divide_eq)
  show ?thesis
    unfolding sliding_windows_def c k by simp
qed

lemma example_candidates:
  "[0 ..< nat \<lceil>(20::rat) / (5 - 1)\<rceil>] = [0, 1, 2, 3, 4]"
  by (simp add: upt_rec)

theorem sliding_windows_offsets_witness:
  "candidate_offsets (5 - 1) 20 0 = Some [0, 4, 8, 12, 16] \<and>
   sliding_windows 20 [[\<lparr>seg_start = 2, seg_end = 6\<rparr>, \<lparr>seg_start = 10, seg_end = 11\<rparr>]]
       5 1 (2 / 5)
     = Some [(0, 5), (4, 5)] \<and>
   keep_window 20 [[\<lparr>seg_start = 2, seg_end = 6\<rparr>, \<lparr>seg_start = 10, seg_end = 11\<rparr>]]
       5 (2 / 5) 0 \<and>
   \<not> keep_window 20 [[\<lparr>seg_start = 2, seg_end = 6\<rparr>, \<lparr>seg_start = 10, seg_end = 11\<rparr>]]
       5 (2 / 5) 8"
proof -
  let ?vl = "[[\<lparr>seg_start = 2, seg_end = 6\<rparr>, \<lparr>seg_start = 10, seg_end = 11\<rparr>]]"
  have a: "active_time ?vl 0 5 = 3" "active_time ?vl 4 5 = 2" "active_time ?vl 8 5 = 1"
    "active_time ?vl 12 5 = 0" "active_time ?vl 16 5 = 0"
    by (simp_all add: active_time_def clip_def Let_def)
  have h: "(0::rat) < 5" "(1::rat) < 5" by simp_all
  from sliding_windows_offsets [OF h, of 20 ?vl "2 / 5"] show ?thesis
    unfolding example_candidates by (simp add: a keep_window_def)
qed

section \<open>Properties of the History and Label Builder\<close>





end
